theory Spec2Isabelle
  imports Complex_Main
begin

section \<open>JavaScript values used by the frontend\<close>

text \<open>
  Strings are \<open>string\<close>. An optional property (\<open>field?: T\<close>) is a \<open>T option\<close>, with
  \<open>None\<close> for \<open>undefined\<close>. Numbers come in two kinds. The page numbers and limits, which
  the program itself supplies, and the counters of a review are integers of magnitude
  below \<open>2^53\<close> and are modelled as \<open>int\<close>. The aggregates the backend computes (rates,
  averages, trend percentages) can be any \<open>number\<close>, fractions included, and are modelled
  by the type \<open>number\<close> below.
\<close>

text \<open>Decimal digits of a natural number, most significant first.\<close>

fun digits :: "nat \<Rightarrow> string" where
  "digits n =
     (if n < 10 then [''0123456789'' ! n]
      else digits (n div 10) @ [''0123456789'' ! (n mod 10)])"

declare digits.simps [simp del]

text \<open>
  \<open>Number.prototype.toString()\<close> (also the conversion a template literal applies) on an
  integer of magnitude below \<open>2^53\<close>: an optional minus sign and the decimal digits.
\<close>

definition Number_toString :: "int \<Rightarrow> string" where
  "Number_toString i = (if i < 0 then CHR ''-'' # digits (nat (- i)) else digits (nat i))"

text \<open>\<open>Math.max\<close> on two integral numbers.\<close>

definition Math_max :: "int \<Rightarrow> int \<Rightarrow> int" where
  "Math_max a b = (if a < b then b else a)"

text \<open>
  \<open>String.prototype.replace(pattern, replacement)\<close> with a one-character string pattern:
  only the first occurrence is replaced.
\<close>

fun String_replace :: "string \<Rightarrow> char \<Rightarrow> char \<Rightarrow> string" where
  "String_replace [] a b = []"
| "String_replace (c # cs) a b = (if c = a then b # cs else c # String_replace cs a b)"

subsection \<open>Numbers in general\<close>

text \<open>
  A \<open>number\<close> is a finite value, \<open>NaN\<close> or one of the two infinities. The finite values
  are given by their exact rational value; every finite double is one of them. The two
  zeros are one value here: the operations below do not tell them apart
  (\<open>Math.abs(-0)\<close> is \<open>0\<close>, \<open>-0 <= 0\<close> and \<open>-0 >= 0\<close> hold, and \<open>-0\<close> converts to the text
  \<open>0\<close>).
\<close>

datatype number = Finite rat | NaN | Infinity | NegInfinity

text \<open>\<open>Math.abs\<close>.\<close>

fun Math_abs :: "number \<Rightarrow> number" where
  "Math_abs (Finite r) = Finite \<bar>r\<bar>"
| "Math_abs NaN = NaN"
| "Math_abs Infinity = Infinity"
| "Math_abs NegInfinity = Infinity"

text \<open>The comparisons \<open>x <= 0\<close> and \<open>x >= 0\<close>; both are false for \<open>NaN\<close>.\<close>

fun le_zero :: "number \<Rightarrow> bool" where
  "le_zero (Finite r) = (r \<le> 0)"
| "le_zero NaN = False"
| "le_zero Infinity = False"
| "le_zero NegInfinity = True"

fun ge_zero :: "number \<Rightarrow> bool" where
  "ge_zero (Finite r) = (r \<ge> 0)"
| "ge_zero NaN = False"
| "ge_zero Infinity = True"
| "ge_zero NegInfinity = False"

text \<open>\<open>Number.isSafeInteger\<close> on a finite value: an integer of magnitude at most \<open>2^53 - 1\<close>.\<close>

definition isSafeInteger :: "rat \<Rightarrow> bool" where
  "isSafeInteger r = (of_int \<lfloor>r\<rfloor> = r \<and> \<bar>r\<bar> \<le> 9007199254740991)"

text \<open>
  The conversion of a number to a string, as a template literal and the rendering of a
  number in an element apply it. A safe integer converts to its decimal digits. For the
  other positive finite values (fractions, and magnitudes from \<open>2^53\<close>) the language
  chooses the shortest decimal digits that read back as the same double and lays them out
  positionally or, from \<open>1e21\<close> and below \<open>1e-6\<close>, with an exponent; that text is not
  computed here but taken from the parameter \<open>shortest_decimal\<close>.
\<close>

definition ToString_positive :: "(rat \<Rightarrow> string) \<Rightarrow> rat \<Rightarrow> string" where
  "ToString_positive shortest_decimal r =
     (if isSafeInteger r then digits (nat \<lfloor>r\<rfloor>) else shortest_decimal r)"

fun ToString :: "(rat \<Rightarrow> string) \<Rightarrow> number \<Rightarrow> string" where
  "ToString shortest_decimal NaN = ''NaN''"
| "ToString shortest_decimal Infinity = ''Infinity''"
| "ToString shortest_decimal NegInfinity = ''-Infinity''"
| "ToString shortest_decimal (Finite r) =
     (if r = 0 then ''0''
      else if r < 0 then CHR ''-'' # ToString_positive shortest_decimal (- r)
      else ToString_positive shortest_decimal r)"

section \<open>API client (\<open>lib/api.ts\<close>, in \<open>src/unnamed/part_002\<close>)\<close>

text \<open>
  A \<open>URLSearchParams\<close> object is the ordered list of its name/value pairs;
  \<open>params.append(name, value)\<close> adds a pair at the end.
\<close>

type_synonym URLSearchParams = "(string \<times> string) list"

definition URLSearchParams_append :: "URLSearchParams \<Rightarrow> string \<Rightarrow> string \<Rightarrow> URLSearchParams" where
  "URLSearchParams_append params name v = params @ [(name, v)]"

text \<open>
  \<open>if (x) params.append(name, x)\<close> for an optional string \<open>x\<close>: a string is truthy
  when it is not empty, \<open>undefined\<close> is falsy.
\<close>

fun append_if_string :: "URLSearchParams \<Rightarrow> string \<Rightarrow> string option \<Rightarrow> URLSearchParams" where
  "append_if_string params name None = params"
| "append_if_string params name (Some x) = (if x = [] then params else URLSearchParams_append params name x)"

text \<open>
  \<open>if (x) params.append(name, x.toString())\<close> for an optional number \<open>x\<close>: a number
  is truthy when it is not zero.
\<close>

fun append_if_number :: "URLSearchParams \<Rightarrow> string \<Rightarrow> int option \<Rightarrow> URLSearchParams" where
  "append_if_number params name None = params"
| "append_if_number params name (Some x) =
     (if x = 0 then params else URLSearchParams_append params name (Number_toString x))"

text \<open>
  The request handed to the HTTP client: the path, and the query parameters. The source
  passes them either as the \<open>params\<close> object of the request configuration or as a
  \<open>URLSearchParams\<close> interpolated after \<open>?\<close> in the URL; the model keeps the list of
  pairs in both cases.
\<close>

datatype Method = GET | PUT

record Request =
  http_method :: Method
  path :: string
  params :: URLSearchParams

datatype TimeRange = T24h | T7d | T30d

fun TimeRange_string :: "TimeRange \<Rightarrow> string" where
  "TimeRange_string T24h = ''24h''"
| "TimeRange_string T7d = ''7d''"
| "TimeRange_string T30d = ''30d''"

definition getMetrics :: "TimeRange option \<Rightarrow> Request" where
  "getMetrics timeRange =
     \<lparr>http_method = GET, path = ''/metrics'',
      params = [(''time_range'',
                 TimeRange_string (case timeRange of None \<Rightarrow> T24h | Some t \<Rightarrow> t))]\<rparr>"

record GetReviewsOptions =
  search :: "string option"
  status :: "string option"
  sort_by :: "string option"
  page :: "int option"
  limit :: "int option"

text \<open>Optional chaining \<open>options?.field\<close> on an optional options object.\<close>

definition opt_chain :: "'a option \<Rightarrow> ('a \<Rightarrow> 'b option) \<Rightarrow> 'b option" where
  "opt_chain options field = (case options of None \<Rightarrow> None | Some opts \<Rightarrow> field opts)"

definition getReviews :: "GetReviewsOptions option \<Rightarrow> Request" where
  "getReviews options =
     (let params = [];
          params = append_if_string params ''search'' (opt_chain options search);
          params = append_if_string params ''status'' (opt_chain options GetReviewsOptions.status);
          params = append_if_string params ''sort_by'' (opt_chain options sort_by);
          params = append_if_number params ''page'' (opt_chain options page);
          params = append_if_number params ''limit'' (opt_chain options limit)
      in \<lparr>http_method = GET, path = ''/reviews'', params = params\<rparr>)"

definition getAnalytics :: "TimeRange option \<Rightarrow> Request" where
  "getAnalytics timeRange =
     \<lparr>http_method = GET, path = ''/analytics'',
      params = [(''time_range'',
                 TimeRange_string (case timeRange of None \<Rightarrow> T7d | Some t \<Rightarrow> t))]\<rparr>"

definition getSettings :: Request where
  "getSettings = \<lparr>http_method = GET, path = ''/settings'', params = []\<rparr>"

datatype ExportFormat = csv | json

fun ExportFormat_string :: "ExportFormat \<Rightarrow> string" where
  "ExportFormat_string csv = ''csv''"
| "ExportFormat_string json = ''json''"

record ExportOptions =
  format :: ExportFormat
  status :: "string option"

definition exportReviews :: "ExportOptions \<Rightarrow> Request" where
  "exportReviews options =
     (let params = [];
          params = append_if_string params ''format'' (Some (ExportFormat_string (format options)));
          params = append_if_string params ''status'' (ExportOptions.status options)
      in \<lparr>http_method = GET, path = ''/reviews/export'', params = params\<rparr>)"

section \<open>Reviews table (\<open>components/ReviewsTable.tsx\<close>)\<close>

text \<open>
  A review as the backend sends it. The field \<open>id\<close> of the source is \<open>review_id\<close> here.
  The declared type of \<open>review_status\<close> is a union of three string literals, but the
  value is decoded JSON and the table's helpers take any \<open>string\<close>, so it is a string.
\<close>

record Review =
  review_id :: string
  installation_id :: string
  repo_name :: string
  pr_number :: int
  pr_url :: string
  commit_sha :: string
  files_reviewed :: int
  review_status :: string
  total_comments :: int
  api_latency_ms :: int
  cache_hit :: bool
  error_message :: "string option"
  created_at :: string
  updated_at :: string

datatype IconName = CheckCircle | AlertCircle | XCircle

text \<open>An icon element: the icon component and its \<open>className\<close>.\<close>

datatype Icon = Icon IconName string

definition getStatusIcon :: "string \<Rightarrow> Icon option" where
  "getStatusIcon st =
     (if st = ''success'' then Some (Icon CheckCircle ''w-5 h-5 text-success-600'')
      else if st = ''partial_failure'' then Some (Icon AlertCircle ''w-5 h-5 text-warning-600'')
      else if st = ''failure'' then Some (Icon XCircle ''w-5 h-5 text-danger-600'')
      else None)"

definition getStatusBadge :: "string \<Rightarrow> string" where
  "getStatusBadge st =
     (if st = ''success'' then ''bg-success-100 text-success-800''
      else if st = ''partial_failure'' then ''bg-warning-100 text-warning-800''
      else if st = ''failure'' then ''bg-danger-100 text-danger-800''
      else ''bg-gray-100 text-gray-800'')"

text \<open>One body row of the table: its key and the content of its seven cells.\<close>

record Row =
  row_key :: string
  repository_cell :: string
  pr_cell :: string
  status_icon :: "Icon option"
  status_badge :: string
  status_label :: string
  files_cell :: string
  latency_cell :: string
  date_cell :: string
  action_href :: string

text \<open>
  What the component returns: the loading skeleton with its number of bars, the
  placeholder paragraph with its text, or the table with its column headers and rows.
\<close>

datatype TableView = Skeleton nat | Placeholder string | Table "string list" "Row list"

text \<open>
  The row of one review. \<open>format_date\<close> stands for the date library's
  \<open>format(new Date(created_at), 'MMM d, HH:mm')\<close>.
\<close>

definition render_row :: "(string \<Rightarrow> string) \<Rightarrow> Review \<Rightarrow> Row" where
  "render_row format_date review =
     \<lparr>row_key = review_id review,
      repository_cell = repo_name review,
      pr_cell = CHR ''#'' # Number_toString (pr_number review),
      status_icon = getStatusIcon (review_status review),
      status_badge = ''px-2 py-1 text-xs font-medium rounded '' @ getStatusBadge (review_status review),
      status_label = String_replace (review_status review) (CHR ''_'') (CHR '' ''),
      files_cell = Number_toString (files_reviewed review),
      latency_cell = Number_toString (api_latency_ms review) @ ''ms'',
      date_cell = format_date (created_at review),
      action_href = pr_url review\<rparr>"

text \<open>The \<open>loading\<close> property is optional and defaults to \<open>false\<close>.\<close>

definition ReviewsTable :: "(string \<Rightarrow> string) \<Rightarrow> Review list \<Rightarrow> bool option \<Rightarrow> TableView" where
  "ReviewsTable format_date reviews loading =
     (if (case loading of None \<Rightarrow> False | Some b \<Rightarrow> b) then Skeleton 5
      else if length reviews = 0 then Placeholder ''No reviews found''
      else Table [''Repository'', ''PR'', ''Status'', ''Files'', ''Latency'', ''Date'', ''Action'']
                 (map (render_row format_date) reviews))"

section \<open>Metric card (\<open>components/MetricCard.tsx\<close>, in \<open>src/unnamed/part_001\<close>)\<close>

datatype LucideIcon = TrendingUp | Clock | BarChart3 | AlertTriangle

text \<open>
  The properties of the card. \<open>value_text\<close> is the property \<open>value\<close> of the source
  (a string or a number) as the text it renders to.
\<close>

record MetricCardProps =
  title :: string
  value_text :: string
  change :: "string option"
  positive :: "bool option"
  icon :: LucideIcon
  description :: "string option"

datatype Arrow = ArrowUp | ArrowDown

text \<open>The change indicator: its \<open>className\<close>, the arrow and the change text after it.\<close>

record ChangeView =
  change_class :: string
  change_arrow :: Arrow
  change_text :: string

record CardView =
  card_title :: string
  card_value :: string
  card_description :: "string option"
  card_change :: "ChangeView option"
  card_icon :: LucideIcon

text \<open>Truthiness of an optional string and of an optional boolean.\<close>

fun truthy_string :: "string option \<Rightarrow> bool" where
  "truthy_string None = False"
| "truthy_string (Some x) = (x \<noteq> [])"

fun truthy_bool :: "bool option \<Rightarrow> bool" where
  "truthy_bool None = False"
| "truthy_bool (Some b) = b"

definition MetricCard :: "MetricCardProps \<Rightarrow> CardView" where
  "MetricCard props =
     \<lparr>card_title = title props,
      card_value = value_text props,
      card_description = (if truthy_string (description props) then description props else None),
      card_change =
        (case change props of
           None \<Rightarrow> None
         | Some c \<Rightarrow>
             if c = [] then None
             else Some \<lparr>change_class = ''text-xs font-medium mt-2 '' @
                                 (if truthy_bool (positive props) then ''text-success-600''
                                  else ''text-danger-600''),
                              change_arrow = (if truthy_bool (positive props) then ArrowUp else ArrowDown),
                              change_text = c\<rparr>),
      card_icon = icon props\<rparr>"

section \<open>Query results and notifications\<close>

text \<open>
  What a page reads from the query hook: the data (absent until a fetch has succeeded),
  the loading flag and the error (absent unless the fetch failed).
\<close>

record 'a QueryResult =
  data :: "'a option"
  isLoading :: bool
  error :: "string option"

text \<open>A call of the notification library: \<open>toast.success(msg)\<close> or \<open>toast.error(msg)\<close>.\<close>

datatype Toast = toast_success string | toast_error string

section \<open>Dashboard page (\<open>pages/index.tsx\<close>, in \<open>src/unnamed/part_002\<close>)\<close>

record Metrics =
  total_reviews :: number
  success_rate :: number
  avg_latency_ms :: number
  cache_hit_rate :: number
  review_trend :: number
  latency_trend :: number
  cache_trend :: number
  success_trend :: number

definition Dashboard_metrics_queryFn :: "TimeRange \<Rightarrow> Request" where
  "Dashboard_metrics_queryFn timeRange = getMetrics (Some timeRange)"

definition Dashboard_reviews_queryFn :: Request where
  "Dashboard_reviews_queryFn =
     getReviews (Some \<lparr>search = None, status = None, sort_by = None, page = None, limit = Some 10\<rparr>)"

text \<open>
  The two effect hooks of the page. Each runs after the first render and after every render
  in which its error changed; the functions give the notifications of one run.
\<close>

definition Dashboard_metrics_effect :: "string option \<Rightarrow> Toast list" where
  "Dashboard_metrics_effect metricsError =
     (if metricsError \<noteq> None then [toast_error ''Failed to load metrics''] else [])"

definition Dashboard_reviews_effect :: "string option \<Rightarrow> Toast list" where
  "Dashboard_reviews_effect reviewsError =
     (if reviewsError \<noteq> None then [toast_error ''Failed to load reviews''] else [])"

text \<open>The four cards, with the parameter of \<open>ToString\<close>.\<close>

definition Dashboard_cards :: "(rat \<Rightarrow> string) \<Rightarrow> Metrics \<Rightarrow> CardView list" where
  "Dashboard_cards shortest_decimal metrics =
     [MetricCard \<lparr>title = ''Total Reviews'',
                  value_text = ToString shortest_decimal (total_reviews metrics),
                  change = Some (ToString shortest_decimal (review_trend metrics) @ ''%''),
                  positive = Some (ge_zero (review_trend metrics)),
                  icon = TrendingUp, description = None\<rparr>,
      MetricCard \<lparr>title = ''Avg Latency'',
                  value_text = ToString shortest_decimal (avg_latency_ms metrics) @ ''ms'',
                  change = Some (ToString shortest_decimal (Math_abs (latency_trend metrics)) @ ''%''),
                  positive = Some (le_zero (latency_trend metrics)),
                  icon = Clock, description = None\<rparr>,
      MetricCard \<lparr>title = ''Cache Hit Rate'',
                  value_text = ToString shortest_decimal (cache_hit_rate metrics) @ ''%'',
                  change = Some (ToString shortest_decimal (cache_trend metrics) @ ''%''),
                  positive = Some (ge_zero (cache_trend metrics)),
                  icon = TrendingUp, description = None\<rparr>,
      MetricCard \<lparr>title = ''Success Rate'',
                  value_text = ToString shortest_decimal (success_rate metrics) @ ''%'',
                  change = Some (ToString shortest_decimal (success_trend metrics) @ ''%''),
                  positive = Some (ge_zero (success_trend metrics)),
                  icon = TrendingUp, description = None\<rparr>]"

datatype MetricsSection = MetricsSkeleton nat | MetricsCards "CardView list" | MetricsNothing

record DashboardView =
  metrics_section :: MetricsSection
  recent_reviews :: TableView
  no_reviews_yet :: bool

text \<open>
  What the page shows, given the two query results. The first two arguments are the date
  formatting of the reviews table and the parameter of \<open>ToString\<close>.
\<close>

definition Dashboard ::
  "(string \<Rightarrow> string) \<Rightarrow> (rat \<Rightarrow> string) \<Rightarrow> Metrics QueryResult \<Rightarrow> Review list QueryResult
     \<Rightarrow> DashboardView" where
  "Dashboard format_date shortest_decimal metricsQuery reviewsQuery =
     \<lparr>metrics_section =
        (if isLoading metricsQuery then MetricsSkeleton 4
         else case data metricsQuery of
                Some metrics \<Rightarrow> MetricsCards (Dashboard_cards shortest_decimal metrics)
              | None \<Rightarrow> MetricsNothing),
      recent_reviews =
        ReviewsTable format_date
          (case data reviewsQuery of None \<Rightarrow> [] | Some reviews \<Rightarrow> reviews)
          (Some (isLoading reviewsQuery)),
      no_reviews_yet =
        (if isLoading reviewsQuery then False
         else case data reviewsQuery of None \<Rightarrow> True | Some reviews \<Rightarrow> length reviews = 0)\<rparr>"

section \<open>Reviews page (\<open>pages/reviews.tsx\<close>)\<close>

datatype StatusFilter = Status_all | Status_success | Status_partial_failure | Status_failure

fun StatusFilter_string :: "StatusFilter \<Rightarrow> string" where
  "StatusFilter_string Status_all = ''all''"
| "StatusFilter_string Status_success = ''success''"
| "StatusFilter_string Status_partial_failure = ''partial_failure''"
| "StatusFilter_string Status_failure = ''failure''"

datatype SortKey = Sort_date | Sort_latency | Sort_comments

fun SortKey_string :: "SortKey \<Rightarrow> string" where
  "SortKey_string Sort_date = ''date''"
| "SortKey_string Sort_latency = ''latency''"
| "SortKey_string Sort_comments = ''comments''"

text \<open>The four state variables of the page.\<close>

record ReviewsState =
  searchQuery :: string
  statusFilter :: StatusFilter
  sortBy :: SortKey
  page :: int

definition Reviews_init :: ReviewsState where
  "Reviews_init = \<lparr>searchQuery = [], statusFilter = Status_all, sortBy = Sort_date, page = 1\<rparr>"

definition Reviews_queryFn :: "ReviewsState \<Rightarrow> Request" where
  "Reviews_queryFn s =
     getReviews (Some
       \<lparr>search = Some (searchQuery s),
        status = (if statusFilter s = Status_all then None
                  else Some (StatusFilter_string (statusFilter s))),
        sort_by = Some (SortKey_string (sortBy s)),
        page = Some (page s),
        limit = Some 20\<rparr>)"

definition handleSearch :: "string \<Rightarrow> ReviewsState \<Rightarrow> ReviewsState" where
  "handleSearch v s = s\<lparr>searchQuery := v, page := 1\<rparr>"

definition handleStatusChange :: "StatusFilter \<Rightarrow> ReviewsState \<Rightarrow> ReviewsState" where
  "handleStatusChange v s = s\<lparr>statusFilter := v, page := 1\<rparr>"

definition handleSortChange :: "SortKey \<Rightarrow> ReviewsState \<Rightarrow> ReviewsState" where
  "handleSortChange v s = s\<lparr>sortBy := v, page := 1\<rparr>"

text \<open>The click handlers of the Previous and Next buttons.\<close>

definition previous_onClick :: "ReviewsState \<Rightarrow> ReviewsState" where
  "previous_onClick s = s\<lparr>page := Math_max 1 (page s - 1)\<rparr>"

definition next_onClick :: "ReviewsState \<Rightarrow> ReviewsState" where
  "next_onClick s = s\<lparr>page := page s + 1\<rparr>"

text \<open>
  What \<open>handleExport\<close> does besides the request: the download of the exported text and
  the notifications.
\<close>

datatype ExportEffect = Download string | Notify Toast

text \<open>
  \<open>handleExport\<close>: the request it issues and, given the backend's answer to it (the text,
  or a failure), what follows. \<open>respond\<close> stands for the backend.
\<close>

definition handleExport ::
  "ReviewsState \<Rightarrow> (Request \<Rightarrow> string + string) \<Rightarrow> Request \<times> ExportEffect list" where
  "handleExport s respond =
     (let request = exportReviews
            \<lparr>format = csv,
             status = (if statusFilter s = Status_all then None
                       else Some (StatusFilter_string (statusFilter s)))\<rparr>
      in (request,
          case respond request of
            Inr reviews \<Rightarrow> [Download reviews, Notify (toast_success ''Reviews exported successfully'')]
          | Inl err \<Rightarrow> [Notify (toast_error ''Failed to export reviews'')]))"

datatype Action = Refetch

datatype Button = Button string Action

record Pagination =
  previous_disabled :: bool
  page_label :: string
  next_disabled :: bool

record ReviewsContent =
  search_value :: string
  status_value :: StatusFilter
  sort_value :: SortKey
  reviews_table :: TableView
  pagination :: "Pagination option"

text \<open>The page shows either the error state (message and button) or its content.\<close>

datatype ReviewsView = ErrorState string Button | Content ReviewsContent

text \<open>
  The pagination controls, rendered when \<open>reviewsData && reviewsData.length > 0\<close>: the
  \<open>disabled\<close> attributes of the two buttons and the label between them.
\<close>

definition Reviews_pagination :: "ReviewsState \<Rightarrow> Review list option \<Rightarrow> Pagination option" where
  "Reviews_pagination s reviewsData =
     (case reviewsData of
        None \<Rightarrow> None
      | Some rs \<Rightarrow>
          if length rs > 0
          then Some \<lparr>previous_disabled = (page s = 1),
                     page_label = ''Page '' @ Number_toString (page s),
                     next_disabled = (length rs < 20)\<rparr>
          else None)"

definition Reviews ::
  "(string \<Rightarrow> string) \<Rightarrow> ReviewsState \<Rightarrow> Review list QueryResult \<Rightarrow> ReviewsView" where
  "Reviews format_date s query =
     (if error query \<noteq> None then ErrorState ''Failed to load reviews'' (Button ''Try Again'' Refetch)
      else Content
        \<lparr>search_value = searchQuery s,
         status_value = statusFilter s,
         sort_value = sortBy s,
         reviews_table =
           ReviewsTable format_date
             (case data query of None \<Rightarrow> [] | Some reviewsData \<Rightarrow> reviewsData)
             (Some (isLoading query)),
         pagination = Reviews_pagination s (data query)\<rparr>)"

text \<open>
  The page registers no effect hook: the notifications it raises come from
  \<open>handleExport\<close> alone, and a render raises none, whatever the query result.
\<close>

definition Reviews_effect :: "string option \<Rightarrow> Toast list" where
  "Reviews_effect err = []"

text \<open>
  The user's actions on the page. A click is delivered to the handler whatever the state
  of the control, so the runs below include every run of the page.
\<close>

datatype ReviewsEvent =
  Search string | StatusChange StatusFilter | SortChange SortKey | Previous | Next

fun Reviews_step :: "ReviewsState \<Rightarrow> ReviewsEvent \<Rightarrow> ReviewsState" where
  "Reviews_step s (Search v) = handleSearch v s"
| "Reviews_step s (StatusChange v) = handleStatusChange v s"
| "Reviews_step s (SortChange v) = handleSortChange v s"
| "Reviews_step s Previous = previous_onClick s"
| "Reviews_step s Next = next_onClick s"

definition Reviews_run :: "ReviewsEvent list \<Rightarrow> ReviewsState" where
  "Reviews_run events = foldl Reviews_step Reviews_init events"

section \<open>Analytics page (\<open>pages/analytics.tsx\<close>, in \<open>src/unnamed/part_003\<close>)\<close>

text \<open>
  The fields of the analytics record that the three cards at the top of the page read. The
  sections below the cards only display further fields and are left out.
\<close>

record Analytics =
  total_api_calls :: number
  api_calls_trend :: number
  avg_response_time_ms :: number
  response_time_trend :: number
  error_rate :: number
  error_rate_trend :: number

definition AnalyticsPage_queryFn :: "TimeRange \<Rightarrow> Request" where
  "AnalyticsPage_queryFn timeRange = getAnalytics (Some timeRange)"

text \<open>The effect hook of the page: the notifications of one run.\<close>

definition AnalyticsPage_effect :: "string option \<Rightarrow> Toast list" where
  "AnalyticsPage_effect err =
     (if err \<noteq> None then [toast_error ''Failed to load analytics''] else [])"

definition AnalyticsPage_cards :: "(rat \<Rightarrow> string) \<Rightarrow> Analytics \<Rightarrow> CardView list" where
  "AnalyticsPage_cards shortest_decimal analytics =
     [MetricCard \<lparr>title = ''Total API Calls'',
                  value_text = ToString shortest_decimal (total_api_calls analytics),
                  change = Some (ToString shortest_decimal (api_calls_trend analytics) @ ''%''),
                  positive = Some (ge_zero (api_calls_trend analytics)),
                  icon = TrendingUp, description = None\<rparr>,
      MetricCard \<lparr>title = ''Avg Response Time'',
                  value_text = ToString shortest_decimal (avg_response_time_ms analytics) @ ''ms'',
                  change = Some (ToString shortest_decimal (Math_abs (response_time_trend analytics)) @ ''%''),
                  positive = Some (le_zero (response_time_trend analytics)),
                  icon = TrendingUp, description = None\<rparr>,
      MetricCard \<lparr>title = ''Error Rate'',
                  value_text = ToString shortest_decimal (error_rate analytics) @ ''%'',
                  change = Some (ToString shortest_decimal (Math_abs (error_rate_trend analytics)) @ ''%''),
                  positive = Some (le_zero (error_rate_trend analytics)),
                  icon = AlertTriangle, description = None\<rparr>]"

datatype AnalyticsView = AnalyticsSkeleton nat | AnalyticsCards "CardView list" | AnalyticsNothing

definition AnalyticsPage :: "(rat \<Rightarrow> string) \<Rightarrow> Analytics QueryResult \<Rightarrow> AnalyticsView" where
  "AnalyticsPage shortest_decimal query =
     (if isLoading query then AnalyticsSkeleton 3
      else case data query of
             Some analytics \<Rightarrow> AnalyticsCards (AnalyticsPage_cards shortest_decimal analytics)
           | None \<Rightarrow> AnalyticsNothing)"

section \<open>Settings page (\<open>pages/settings.tsx\<close>, in \<open>src/unnamed/part_004\<close>)\<close>

record Settings =
  default_model :: "string option"
  max_files_per_review :: "int option"
  max_lines_per_file :: "int option"
  enable_caching :: "bool option"
  enable_parallel_processing :: "bool option"
  enable_batch_processing :: "bool option"
  rate_limit_per_hour :: "int option"
  request_timeout_seconds :: "int option"

text \<open>The \<open>PUT /settings\<close> request of \<open>api.updateSettings\<close>, with the settings as its body.\<close>

record SettingsRequest = Request +
  body :: Settings

definition updateSettings :: "Settings \<Rightarrow> SettingsRequest" where
  "updateSettings newSettings = \<lparr>http_method = PUT, path = ''/settings'', params = [], body = newSettings\<rparr>"

text \<open>The two state variables of the page: the save-in-progress flag and the draft.\<close>

record SettingsState =
  saving :: bool
  settings :: "Settings option"

definition Settings_init :: SettingsState where
  "Settings_init = \<lparr>saving = False, settings = None\<rparr>"

text \<open>The effect hook that copies the fetched settings into the draft.\<close>

definition initialSettings_effect :: "Settings option \<Rightarrow> SettingsState \<Rightarrow> SettingsState" where
  "initialSettings_effect initialSettings s =
     (case initialSettings of None \<Rightarrow> s | Some fetched \<Rightarrow> s\<lparr>settings := Some fetched\<rparr>)"

text \<open>
  \<open>handleSave\<close>: the new state and the requests issued (\<open>saveMutation.mutate\<close> calls the
  mutation function, which calls \<open>api.updateSettings\<close>).
\<close>

definition handleSave :: "SettingsState \<Rightarrow> SettingsState \<times> SettingsRequest list" where
  "handleSave s =
     (case settings s of
        None \<Rightarrow> (s, [])
      | Some draft \<Rightarrow> (s\<lparr>saving := True\<rparr>, [updateSettings draft]))"

text \<open>The two callbacks of the mutation: the new state and the notification.\<close>

definition onSuccess :: "SettingsState \<Rightarrow> SettingsState \<times> Toast list" where
  "onSuccess s = (s\<lparr>saving := False\<rparr>, [toast_success ''Settings saved successfully''])"

definition onError :: "SettingsState \<Rightarrow> SettingsState \<times> Toast list" where
  "onError s = (s\<lparr>saving := False\<rparr>, [toast_error ''Failed to save settings''])"

text \<open>
  The change handlers of the form: each sets the draft to a copy of it with one field
  replaced (\<open>{ ...settings, field: v }\<close>; spreading \<open>null\<close> copies nothing).
\<close>

definition spread :: "Settings option \<Rightarrow> Settings" where
  "spread draft =
     (case draft of
        None \<Rightarrow> \<lparr>default_model = None, max_files_per_review = None, max_lines_per_file = None,
                 enable_caching = None, enable_parallel_processing = None,
                 enable_batch_processing = None, rate_limit_per_hour = None,
                 request_timeout_seconds = None\<rparr>
      | Some d \<Rightarrow> d)"

datatype SettingsEdit =
  Edit_default_model string
| Edit_max_files_per_review int
| Edit_max_lines_per_file int
| Edit_enable_caching bool
| Edit_enable_parallel_processing bool
| Edit_enable_batch_processing bool
| Edit_rate_limit_per_hour int
| Edit_request_timeout_seconds int

fun onChange :: "SettingsEdit \<Rightarrow> SettingsState \<Rightarrow> SettingsState" where
  "onChange (Edit_default_model v) s =
     s\<lparr>settings := Some ((spread (settings s))\<lparr>default_model := Some v\<rparr>)\<rparr>"
| "onChange (Edit_max_files_per_review v) s =
     s\<lparr>settings := Some ((spread (settings s))\<lparr>max_files_per_review := Some v\<rparr>)\<rparr>"
| "onChange (Edit_max_lines_per_file v) s =
     s\<lparr>settings := Some ((spread (settings s))\<lparr>max_lines_per_file := Some v\<rparr>)\<rparr>"
| "onChange (Edit_enable_caching v) s =
     s\<lparr>settings := Some ((spread (settings s))\<lparr>enable_caching := Some v\<rparr>)\<rparr>"
| "onChange (Edit_enable_parallel_processing v) s =
     s\<lparr>settings := Some ((spread (settings s))\<lparr>enable_parallel_processing := Some v\<rparr>)\<rparr>"
| "onChange (Edit_enable_batch_processing v) s =
     s\<lparr>settings := Some ((spread (settings s))\<lparr>enable_batch_processing := Some v\<rparr>)\<rparr>"
| "onChange (Edit_rate_limit_per_hour v) s =
     s\<lparr>settings := Some ((spread (settings s))\<lparr>rate_limit_per_hour := Some v\<rparr>)\<rparr>"
| "onChange (Edit_request_timeout_seconds v) s =
     s\<lparr>settings := Some ((spread (settings s))\<lparr>request_timeout_seconds := Some v\<rparr>)\<rparr>"

text \<open>
  What can happen on the page: the settings arrive, the user edits a field, the user
  saves, the update succeeds, the update fails. Every order is allowed, so the runs below
  include every run of the page.
\<close>

datatype SettingsEvent =
  Loaded Settings | Edited SettingsEdit | Save | UpdateSucceeded | UpdateFailed

fun Settings_step :: "SettingsState \<Rightarrow> SettingsEvent \<Rightarrow> SettingsState" where
  "Settings_step s (Loaded fetched) = initialSettings_effect (Some fetched) s"
| "Settings_step s (Edited e) = onChange e s"
| "Settings_step s Save = fst (handleSave s)"
| "Settings_step s UpdateSucceeded = fst (onSuccess s)"
| "Settings_step s UpdateFailed = fst (onError s)"

definition Settings_run :: "SettingsEvent list \<Rightarrow> SettingsState" where
  "Settings_run events = foldl Settings_step Settings_init events"

section \<open>Facts about the JavaScript values and the parameter list\<close>

lemma digits_not_Nil: "digits n \<noteq> []"
  by (subst digits.simps) simp

lemma Number_toString_not_Nil: "Number_toString i \<noteq> []"
  by (simp add: Number_toString_def digits_not_Nil)

text \<open>On the safe integers the general conversion is the one on integers.\<close>

lemma ToString_safe_integer:
  "\<bar>i\<bar> \<le> 9007199254740991 \<Longrightarrow> ToString shortest_decimal (Finite (of_int i)) = Number_toString i"
proof -
  assume bound: "\<bar>i\<bar> \<le> 9007199254740991"
  have safe: "isSafeInteger (of_int j)" if "\<bar>j\<bar> \<le> 9007199254740991" for j :: int
  proof -
    from that have "\<bar>(of_int j :: rat)\<bar> \<le> of_int 9007199254740991"
      unfolding of_int_abs [symmetric] of_int_le_iff .
    then show ?thesis by (simp add: isSafeInteger_def)
  qed
  from bound have neg: "isSafeInteger (of_int (- i))" by (intro safe) simp
  from bound have pos: "isSafeInteger (of_int i)" by (intro safe)
  show ?thesis
  proof (cases "i = 0")
    case True
    then show ?thesis by (simp add: Number_toString_def digits.simps)
  next
    case False
    then show ?thesis
      using neg pos by (simp add: Number_toString_def ToString_positive_def)
  qed
qed

lemma Math_max_eq: "Math_max a b = max a b"
  by (simp add: Math_max_def max_def)

lemma StatusFilter_string_not_Nil: "StatusFilter_string f \<noteq> []"
  by (cases f) simp_all

lemma names_append_if_string:
  "fst ` set (append_if_string ps k x) = fst ` set ps \<union> (if truthy_string x then {k} else {})"
  by (cases x) (auto simp: URLSearchParams_append_def)

lemma names_append_if_number:
  "fst ` set (append_if_number ps k x) = fst ` set ps \<union> (if x = None \<or> x = Some 0 then {} else {k})"
  by (cases x) (auto simp: URLSearchParams_append_def)

lemma values_append_if_string:
  "[] \<notin> snd ` set ps \<Longrightarrow> [] \<notin> snd ` set (append_if_string ps k x)"
  by (cases x) (auto simp: URLSearchParams_append_def)

lemma values_append_if_number:
  "[] \<notin> snd ` set ps \<Longrightarrow> [] \<notin> snd ` set (append_if_number ps k x)"
  by (cases x) (auto simp: URLSearchParams_append_def Number_toString_not_Nil [symmetric])

lemma getReviews_names:
  "fst ` set (params (getReviews options)) =
     (if truthy_string (opt_chain options search) then {''search''} else {}) \<union>
     (if truthy_string (opt_chain options GetReviewsOptions.status) then {''status''} else {}) \<union>
     (if truthy_string (opt_chain options sort_by) then {''sort_by''} else {}) \<union>
     (if opt_chain options GetReviewsOptions.page = None \<or> opt_chain options GetReviewsOptions.page = Some 0 then {} else {''page''}) \<union>
     (if opt_chain options limit = None \<or> opt_chain options limit = Some 0 then {} else {''limit''})"
  unfolding getReviews_def Let_def
  by (simp only: Request.simps names_append_if_string names_append_if_number) simp

lemma getReviews_values: "[] \<notin> snd ` set (params (getReviews options))"
  unfolding getReviews_def Let_def
  by (simp only: Request.simps) (intro values_append_if_string values_append_if_number, simp)

section \<open>The reviews request\<close>

text \<open>
  C1. Every request built by \<open>getReviews\<close> is a \<open>GET /reviews\<close> whose parameters all have
  a non-empty value, and an optional filter that is unset or empty has no parameter at
  all: \<open>search\<close>, \<open>status\<close> and \<open>sort_by\<close> when absent or the empty string,
  \<open>page\<close> and \<open>limit\<close> when absent. In particular the request of the reviews page with an
  empty search text and the status filter \<open>all\<close> has neither a \<open>search\<close> nor a
  \<open>status\<close> parameter.
\<close>

theorem getReviews_omits_unset_filters:
  "http_method (getReviews options) = GET \<and> path (getReviews options) = ''/reviews''
   \<and> [] \<notin> snd ` set (params (getReviews options))
   \<and> (opt_chain options search \<in> {None, Some []} \<longrightarrow>
        ''search'' \<notin> fst ` set (params (getReviews options)))
   \<and> (opt_chain options GetReviewsOptions.status \<in> {None, Some []} \<longrightarrow>
        ''status'' \<notin> fst ` set (params (getReviews options)))
   \<and> (opt_chain options sort_by \<in> {None, Some []} \<longrightarrow>
        ''sort_by'' \<notin> fst ` set (params (getReviews options)))
   \<and> (opt_chain options GetReviewsOptions.page = None \<longrightarrow>
        ''page'' \<notin> fst ` set (params (getReviews options)))
   \<and> (opt_chain options limit = None \<longrightarrow>
        ''limit'' \<notin> fst ` set (params (getReviews options)))
   \<and> (searchQuery s = [] \<and> statusFilter s = Status_all \<longrightarrow>
        ''search'' \<notin> fst ` set (params (Reviews_queryFn s)) \<and>
        ''status'' \<notin> fst ` set (params (Reviews_queryFn s)))"
proof -
  have meth: "http_method (getReviews options) = GET \<and> path (getReviews options) = ''/reviews''"
    by (simp add: getReviews_def Let_def)
  have vals: "[] \<notin> snd ` set (params (getReviews options))"
    by (rule getReviews_values)
  have page_level: "searchQuery s = [] \<and> statusFilter s = Status_all \<longrightarrow>
        ''search'' \<notin> fst ` set (params (Reviews_queryFn s)) \<and>
        ''status'' \<notin> fst ` set (params (Reviews_queryFn s))"
    unfolding Reviews_queryFn_def getReviews_names by (simp add: opt_chain_def)
  show ?thesis
    using meth vals page_level unfolding getReviews_names by auto
qed


theorem getReviews_omits_unset_filters_witness:
  "opt_chain (Some \<lparr>search = Some [], status = None, sort_by = Some ''date'',
                     page = Some 1, limit = Some 20\<rparr>) search \<in> {None, Some []}
   \<and> searchQuery Reviews_init = [] \<and> statusFilter Reviews_init = Status_all
   \<and> params (Reviews_queryFn Reviews_init) = [(''sort_by'', ''date''), (''page'', ''1''), (''limit'', ''20'')]
   \<and> ''search'' \<notin> fst ` set (params (Reviews_queryFn Reviews_init))
   \<and> ''status'' \<notin> fst ` set (params (Reviews_queryFn Reviews_init))
   \<and> [] \<notin> snd ` set (params (Reviews_queryFn Reviews_init))"
  using getReviews_omits_unset_filters
    [of "Some \<lparr>search = Some [], status = None, sort_by = Some ''date'',
               page = Some 1, limit = Some 20\<rparr>" Reviews_init]
  by (simp add: Reviews_queryFn_def Reviews_init_def getReviews_def opt_chain_def
      URLSearchParams_append_def Number_toString_def digits.simps)

section \<open>Filters and the page number\<close>

text \<open>
  C2. On the reviews page a change of the search text, of the status filter or of the sort
  key sets the page number to 1, whatever it was before.
\<close>

theorem filter_change_resets_page:
  "page (handleSearch v s) = 1 \<and> page (handleStatusChange f s) = 1 \<and> page (handleSortChange k s) = 1"
  by (simp add: handleSearch_def handleStatusChange_def handleSortChange_def)

section \<open>A failed save\<close>

text \<open>
  C3. When the settings update fails, the error callback leaves the draft as it is, sets
  the save-in-progress flag to false and raises the failure notification. In particular,
  saving a loaded draft issues one update request carrying that draft, and after its
  failure the draft is the one before the save attempt and the flag is false.
\<close>

theorem failed_save_keeps_draft:
  "settings (fst (onError s)) = settings s \<and> saving (fst (onError s)) = False
   \<and> snd (onError s) = [toast_error ''Failed to save settings'']
   \<and> (settings s = Some draft \<longrightarrow>
        snd (handleSave s) = [updateSettings draft] \<and>
        settings (fst (onError (fst (handleSave s)))) = Some draft \<and>
        saving (fst (onError (fst (handleSave s)))) = False)"
  by (simp add: onError_def handleSave_def)

theorem failed_save_keeps_draft_witness:
  "settings (Settings_run [Loaded (spread None), Edited (Edit_max_files_per_review 7)])
     = Some ((spread None)\<lparr>max_files_per_review := Some 7\<rparr>)
   \<and> Settings_run [Loaded (spread None), Edited (Edit_max_files_per_review 7), Save, UpdateFailed]
     = \<lparr>saving = False, settings = Some ((spread None)\<lparr>max_files_per_review := Some 7\<rparr>)\<rparr>"
  using failed_save_keeps_draft
    [of "Settings_run [Loaded (spread None), Edited (Edit_max_files_per_review 7)]"
        "(spread None)\<lparr>max_files_per_review := Some 7\<rparr>"]
  by (simp add: Settings_run_def Settings_init_def initialSettings_effect_def spread_def
      handleSave_def onError_def)

section \<open>Status icons and badges\<close>

text \<open>
  C4. The status of a review maps to its icon and badge style exactly so: \<open>success\<close> to
  the check icon and the success style, \<open>partial_failure\<close> to the alert icon and the
  warning style, \<open>failure\<close> to the cross icon and the danger style, and any other string
  to no icon and the grey style. Whenever the reviews table renders rows, the icon and the
  badge of each row are those of the status of its review.
\<close>

theorem status_mapping:
  "getStatusIcon ''success'' = Some (Icon CheckCircle ''w-5 h-5 text-success-600'')
   \<and> getStatusBadge ''success'' = ''bg-success-100 text-success-800''
   \<and> getStatusIcon ''partial_failure'' = Some (Icon AlertCircle ''w-5 h-5 text-warning-600'')
   \<and> getStatusBadge ''partial_failure'' = ''bg-warning-100 text-warning-800''
   \<and> getStatusIcon ''failure'' = Some (Icon XCircle ''w-5 h-5 text-danger-600'')
   \<and> getStatusBadge ''failure'' = ''bg-danger-100 text-danger-800''
   \<and> (st \<notin> {''success'', ''partial_failure'', ''failure''} \<longrightarrow>
        getStatusIcon st = None \<and> getStatusBadge st = ''bg-gray-100 text-gray-800'')
   \<and> (ReviewsTable format_date reviews loading = Table headers rows \<longrightarrow>
        map status_icon rows = map (\<lambda>r. getStatusIcon (review_status r)) reviews \<and>
        map status_badge rows =
          map (\<lambda>r. ''px-2 py-1 text-xs font-medium rounded '' @ getStatusBadge (review_status r)) reviews)"
  by (auto simp: getStatusIcon_def getStatusBadge_def ReviewsTable_def render_row_def
      split: if_splits)

theorem status_mapping_witness:
  "''pending'' \<notin> {''success'', ''partial_failure'', ''failure''}
   \<and> getStatusIcon ''pending'' = None
   \<and> getStatusBadge ''pending'' = ''bg-gray-100 text-gray-800''
   \<and> ReviewsTable id
        [\<lparr>review_id = ''r1'', installation_id = ''i1'', repo_name = ''acme/api'', pr_number = 7,
          pr_url = ''https://example.test/pr/7'', commit_sha = ''abc'', files_reviewed = 3,
          review_status = ''partial_failure'', total_comments = 2, api_latency_ms = 120,
          cache_hit = False, error_message = None, created_at = ''2024-01-01T10:00:00Z'',
          updated_at = ''2024-01-01T10:00:00Z''\<rparr>] (Some False)
      = Table [''Repository'', ''PR'', ''Status'', ''Files'', ''Latency'', ''Date'', ''Action'']
          [\<lparr>row_key = ''r1'', repository_cell = ''acme/api'', pr_cell = ''#7'',
            status_icon = Some (Icon AlertCircle ''w-5 h-5 text-warning-600''),
            status_badge = ''px-2 py-1 text-xs font-medium rounded bg-warning-100 text-warning-800'',
            status_label = ''partial failure'', files_cell = ''3'', latency_cell = ''120ms'',
            date_cell = ''2024-01-01T10:00:00Z'', action_href = ''https://example.test/pr/7''\<rparr>]"
  using status_mapping [of "''pending''" id
        "[\<lparr>review_id = ''r1'', installation_id = ''i1'', repo_name = ''acme/api'', pr_number = 7,
          pr_url = ''https://example.test/pr/7'', commit_sha = ''abc'', files_reviewed = 3,
          review_status = ''partial_failure'', total_comments = 2, api_latency_ms = 120,
          cache_hit = False, error_message = None, created_at = ''2024-01-01T10:00:00Z'',
          updated_at = ''2024-01-01T10:00:00Z''\<rparr>]" "Some False"
        "[''Repository'', ''PR'', ''Status'', ''Files'', ''Latency'', ''Date'', ''Action'']"
        "[\<lparr>row_key = ''r1'', repository_cell = ''acme/api'', pr_cell = ''#7'',
            status_icon = Some (Icon AlertCircle ''w-5 h-5 text-warning-600''),
            status_badge = ''px-2 py-1 text-xs font-medium rounded bg-warning-100 text-warning-800'',
            status_label = ''partial failure'', files_cell = ''3'', latency_cell = ''120ms'',
            date_cell = ''2024-01-01T10:00:00Z'', action_href = ''https://example.test/pr/7''\<rparr>]"]
  by (simp add: getStatusIcon_def getStatusBadge_def ReviewsTable_def render_row_def
      Number_toString_def digits.simps)

section \<open>The latency card\<close>

text \<open>
  C5. For every metrics record, whatever numbers it holds, the second card of the
  dashboard is the latency card; its change indicator shows the text of the absolute
  value of \<open>latency_trend\<close> followed by \<open>%\<close>, and it is shown as favourable (success colour,
  up arrow) exactly when \<open>latency_trend <= 0\<close> holds. For a finite trend \<open>r\<close> that is the
  text of \<open>\<bar>r\<bar>\<close>, favourable exactly when \<open>r \<le> 0\<close>. With \<open>latency_trend = -5\<close> the card is
  favourable with the text \<open>5%\<close>, with \<open>latency_trend = 5\<close> unfavourable with the text
  \<open>5%\<close>. The cards are what the dashboard shows once the metrics are loaded.
\<close>

theorem latency_card_trend:
  "card_title (Dashboard_cards shortest_decimal m ! 1) = ''Avg Latency''
   \<and> card_change (Dashboard_cards shortest_decimal m ! 1) =
       Some \<lparr>change_class = ''text-xs font-medium mt-2 '' @
                (if le_zero (latency_trend m) then ''text-success-600'' else ''text-danger-600''),
             change_arrow = (if le_zero (latency_trend m) then ArrowUp else ArrowDown),
             change_text = ToString shortest_decimal (Math_abs (latency_trend m)) @ ''%''\<rparr>
   \<and> metrics_section (Dashboard format_date shortest_decimal
         \<lparr>data = Some m, isLoading = False, error = e\<rparr> reviewsQuery)
       = MetricsCards (Dashboard_cards shortest_decimal m)
   \<and> (latency_trend m = Finite r \<longrightarrow>
        card_change (Dashboard_cards shortest_decimal m ! 1) =
          Some \<lparr>change_class = ''text-xs font-medium mt-2 '' @
                   (if r \<le> 0 then ''text-success-600'' else ''text-danger-600''),
                change_arrow = (if r \<le> 0 then ArrowUp else ArrowDown),
                change_text = ToString shortest_decimal (Finite \<bar>r\<bar>) @ ''%''\<rparr>)
   \<and> (latency_trend m = Finite (- 5) \<longrightarrow>
        card_change (Dashboard_cards shortest_decimal m ! 1) =
          Some \<lparr>change_class = ''text-xs font-medium mt-2 text-success-600'',
                change_arrow = ArrowUp, change_text = ''5%''\<rparr>)
   \<and> (latency_trend m = Finite 5 \<longrightarrow>
        card_change (Dashboard_cards shortest_decimal m ! 1) =
          Some \<lparr>change_class = ''text-xs font-medium mt-2 text-danger-600'',
                change_arrow = ArrowDown, change_text = ''5%''\<rparr>)"
proof -
  have five: "ToString shortest_decimal (Finite 5) = ''5''"
    using ToString_safe_integer [of 5 shortest_decimal]
    by (simp add: Number_toString_def digits.simps)
  have card: "card_title (Dashboard_cards shortest_decimal m ! 1) = ''Avg Latency''
      \<and> card_change (Dashboard_cards shortest_decimal m ! 1) =
       Some \<lparr>change_class = ''text-xs font-medium mt-2 '' @
                (if le_zero (latency_trend m) then ''text-success-600'' else ''text-danger-600''),
             change_arrow = (if le_zero (latency_trend m) then ArrowUp else ArrowDown),
             change_text = ToString shortest_decimal (Math_abs (latency_trend m)) @ ''%''\<rparr>"
    by (simp add: Dashboard_cards_def MetricCard_def)
  have shown: "metrics_section (Dashboard format_date shortest_decimal
         \<lparr>data = Some m, isLoading = False, error = e\<rparr> reviewsQuery)
       = MetricsCards (Dashboard_cards shortest_decimal m)"
    by (simp add: Dashboard_def)
  from card shown five show ?thesis by simp
qed

theorem latency_card_trend_witness:
  "latency_trend \<lparr>total_reviews = Finite 40, success_rate = Finite (181 / 2),
        avg_latency_ms = Finite 800, cache_hit_rate = Finite 50, review_trend = Finite 3,
        latency_trend = Finite (- 5), cache_trend = Finite 0, success_trend = Finite 1\<rparr> = Finite (- 5)
   \<and> card_change (Dashboard_cards (\<lambda>r. ''90.5'')
        \<lparr>total_reviews = Finite 40, success_rate = Finite (181 / 2),
         avg_latency_ms = Finite 800, cache_hit_rate = Finite 50, review_trend = Finite 3,
         latency_trend = Finite (- 5), cache_trend = Finite 0, success_trend = Finite 1\<rparr> ! 1)
      = Some \<lparr>change_class = ''text-xs font-medium mt-2 text-success-600'',
              change_arrow = ArrowUp, change_text = ''5%''\<rparr>
   \<and> latency_trend \<lparr>total_reviews = Finite 40, success_rate = Finite (181 / 2),
        avg_latency_ms = Finite 800, cache_hit_rate = Finite 50, review_trend = Finite 3,
        latency_trend = Finite 5, cache_trend = Finite 0, success_trend = Finite 1\<rparr> = Finite 5
   \<and> card_change (Dashboard_cards (\<lambda>r. ''90.5'')
        \<lparr>total_reviews = Finite 40, success_rate = Finite (181 / 2),
         avg_latency_ms = Finite 800, cache_hit_rate = Finite 50, review_trend = Finite 3,
         latency_trend = Finite 5, cache_trend = Finite 0, success_trend = Finite 1\<rparr> ! 1)
      = Some \<lparr>change_class = ''text-xs font-medium mt-2 text-danger-600'',
              change_arrow = ArrowDown, change_text = ''5%''\<rparr>
   \<and> card_change (Dashboard_cards (\<lambda>r. ''2.5'')
        \<lparr>total_reviews = Finite 40, success_rate = Finite 90,
         avg_latency_ms = Finite 800, cache_hit_rate = Finite 50, review_trend = Finite 3,
         latency_trend = Finite (- 5 / 2), cache_trend = Finite 0, success_trend = Finite 1\<rparr> ! 1)
      = Some \<lparr>change_class = ''text-xs font-medium mt-2 text-success-600'',
              change_arrow = ArrowUp, change_text = ''2.5%''\<rparr>
   \<and> card_change (Dashboard_cards (\<lambda>r. ''1e+21'')
        \<lparr>total_reviews = Finite 40, success_rate = Finite 90,
         avg_latency_ms = Finite 800, cache_hit_rate = Finite 50, review_trend = Finite 3,
         latency_trend = Finite (10 ^ 21), cache_trend = Finite 0, success_trend = Finite 1\<rparr> ! 1)
      = Some \<lparr>change_class = ''text-xs font-medium mt-2 text-danger-600'',
              change_arrow = ArrowDown, change_text = ''1e+21%''\<rparr>
   \<and> card_change (Dashboard_cards (\<lambda>r. ''2.5'')
        \<lparr>total_reviews = Finite 40, success_rate = Finite 90,
         avg_latency_ms = Finite 800, cache_hit_rate = Finite 50, review_trend = Finite 3,
         latency_trend = NaN, cache_trend = Finite 0, success_trend = Finite 1\<rparr> ! 1)
      = Some \<lparr>change_class = ''text-xs font-medium mt-2 text-danger-600'',
              change_arrow = ArrowDown, change_text = ''NaN%''\<rparr>"
proof -
  have half: "\<lfloor>5 / 2 :: rat\<rfloor> = 2"
    by (simp add: floor_eq_iff)
  have fraction: "\<not> isSafeInteger (5 / 2)"
    unfolding isSafeInteger_def half by simp
  have large: "\<not> isSafeInteger (10 ^ 21)"
    unfolding isSafeInteger_def by simp
  have five: "isSafeInteger 5"
    unfolding isSafeInteger_def by simp
  show ?thesis
  using fraction large five
      latency_card_trend [where shortest_decimal = "\<lambda>r. ''2.5''" and r = "- 5 / 2" and m =
        "\<lparr>total_reviews = Finite 40, success_rate = Finite 90,
         avg_latency_ms = Finite 800, cache_hit_rate = Finite 50, review_trend = Finite 3,
         latency_trend = Finite (- 5 / 2), cache_trend = Finite 0, success_trend = Finite 1\<rparr>"]
      latency_card_trend [where shortest_decimal = "\<lambda>r. ''1e+21''" and r = "10 ^ 21" and m =
        "\<lparr>total_reviews = Finite 40, success_rate = Finite 90,
         avg_latency_ms = Finite 800, cache_hit_rate = Finite 50, review_trend = Finite 3,
         latency_trend = Finite (10 ^ 21), cache_trend = Finite 0, success_trend = Finite 1\<rparr>"]
      latency_card_trend [where shortest_decimal = "\<lambda>r. ''2.5''" and r = 0 and m =
        "\<lparr>total_reviews = Finite 40, success_rate = Finite 90,
         avg_latency_ms = Finite 800, cache_hit_rate = Finite 50, review_trend = Finite 3,
         latency_trend = NaN, cache_trend = Finite 0, success_trend = Finite 1\<rparr>"]
      latency_card_trend [where shortest_decimal = "\<lambda>r. ''90.5''" and r = "- 5" and m =
        "\<lparr>total_reviews = Finite 40, success_rate = Finite (181 / 2),
         avg_latency_ms = Finite 800, cache_hit_rate = Finite 50, review_trend = Finite 3,
         latency_trend = Finite (- 5), cache_trend = Finite 0, success_trend = Finite 1\<rparr>"]
      latency_card_trend [where shortest_decimal = "\<lambda>r. ''90.5''" and r = 5 and m =
        "\<lparr>total_reviews = Finite 40, success_rate = Finite (181 / 2),
         avg_latency_ms = Finite 800, cache_hit_rate = Finite 50, review_trend = Finite 3,
         latency_trend = Finite 5, cache_trend = Finite 0, success_trend = Finite 1\<rparr>"]
  by (simp add: ToString_positive_def digits.simps)
qed

section \<open>The export request\<close>

text \<open>
  C6. The request that \<open>handleExport\<close> issues is a \<open>GET /reviews/export\<close> whose first
  parameter is \<open>format=csv\<close>; it has a \<open>status\<close> parameter if and only if the status
  filter is not \<open>all\<close>, and then the parameter's value is the filter's value. This holds
  whatever the backend answers.
\<close>

theorem export_request_parameters:
  "http_method (fst (handleExport s respond)) = GET
   \<and> path (fst (handleExport s respond)) = ''/reviews/export''
   \<and> params (fst (handleExport s respond)) =
       (''format'', ''csv'') #
       (if statusFilter s = Status_all then []
        else [(''status'', StatusFilter_string (statusFilter s))])
   \<and> (''status'' \<in> fst ` set (params (fst (handleExport s respond)))) = (statusFilter s \<noteq> Status_all)
   \<and> (statusFilter s \<noteq> Status_all \<longrightarrow>
        map_of (params (fst (handleExport s respond))) ''status''
          = Some (StatusFilter_string (statusFilter s)))"
  by (simp add: handleExport_def exportReviews_def Let_def URLSearchParams_append_def
      StatusFilter_string_not_Nil)

theorem export_request_parameters_witness:
  "statusFilter (handleStatusChange Status_failure Reviews_init) \<noteq> Status_all
   \<and> params (fst (handleExport (handleStatusChange Status_failure Reviews_init) (\<lambda>request. Inr [])))
       = [(''format'', ''csv''), (''status'', ''failure'')]
   \<and> params (fst (handleExport Reviews_init (\<lambda>request. Inr []))) = [(''format'', ''csv'')]"
  using export_request_parameters [of "handleStatusChange Status_failure Reviews_init" "\<lambda>request. Inr []"]
    export_request_parameters [of Reviews_init "\<lambda>request. Inr []"]
  by (simp add: handleStatusChange_def Reviews_init_def)

section \<open>The empty result\<close>

text \<open>
  C7. When the reviews query holds an empty list, is not loading and has no error, then
  for every search text, status filter, sort key and page number the reviews page shows
  its content with the placeholder \<open>No reviews found\<close> in place of the table, and no
  pagination controls. The table component itself gives the placeholder for an empty list
  when it is not loading.
\<close>

theorem empty_result_shows_placeholder:
  "data query = Some [] \<Longrightarrow> isLoading query = False \<Longrightarrow> error query = None \<Longrightarrow>
   Reviews format_date s query =
     Content \<lparr>search_value = searchQuery s, status_value = statusFilter s, sort_value = sortBy s,
              reviews_table = Placeholder ''No reviews found'', pagination = None\<rparr>
   \<and> ReviewsTable format_date [] (Some False) = Placeholder ''No reviews found''
   \<and> ReviewsTable format_date [] None = Placeholder ''No reviews found''"
  by (simp add: Reviews_def ReviewsTable_def Reviews_pagination_def)

theorem empty_result_shows_placeholder_witness:
  "Reviews id (handleSearch ''zzz'' Reviews_init) \<lparr>data = Some [], isLoading = False, error = None\<rparr> =
     Content \<lparr>search_value = ''zzz'', status_value = Status_all, sort_value = Sort_date,
              reviews_table = Placeholder ''No reviews found'', pagination = None\<rparr>"
  using empty_result_shows_placeholder
    [of "\<lparr>data = Some [], isLoading = False, error = None\<rparr>" id "handleSearch ''zzz'' Reviews_init"]
  by (simp add: handleSearch_def Reviews_init_def)

section \<open>Failed fetches\<close>

text \<open>
  C8, as stated, fails. A failed fetch raises no notification on the reviews page, and the
  dashboard and the analytics page show no error state when all their data failed to
  load: the dashboard leaves the metrics section out and shows the empty placeholders of
  the reviews table, the analytics page shows nothing. (The function arguments are the
  date formatting and the parameter of the number conversion; a page without data calls
  neither.)
\<close>

theorem failed_fetch_counterexample:
  "Reviews_effect (Some ''Network Error'') = []
   \<and> Dashboard id (Number_toString \<circ> floor)
         \<lparr>data = None, isLoading = False, error = Some ''Network Error''\<rparr>
         \<lparr>data = None, isLoading = False, error = Some ''Network Error''\<rparr>
       = \<lparr>metrics_section = MetricsNothing, recent_reviews = Placeholder ''No reviews found'',
          no_reviews_yet = True\<rparr>
   \<and> AnalyticsPage (Number_toString \<circ> floor)
         \<lparr>data = None, isLoading = False, error = Some ''Network Error''\<rparr> = AnalyticsNothing"
  by (simp add: Reviews_effect_def Dashboard_def ReviewsTable_def AnalyticsPage_def)

text \<open>
  C8, amended. On the dashboard and on the analytics page a failed fetch raises an error
  notification (one for the metrics, one for the recent reviews, one for the analytics).
  On the reviews page a failed fetch shows the error state, with the message
  \<open>Failed to load reviews\<close> and a \<open>Try Again\<close> button that fetches again.
\<close>

theorem failed_fetch_surfaces:
  "(metricsError \<noteq> None \<longrightarrow>
      Dashboard_metrics_effect metricsError = [toast_error ''Failed to load metrics''])
   \<and> (reviewsError \<noteq> None \<longrightarrow>
      Dashboard_reviews_effect reviewsError = [toast_error ''Failed to load reviews''])
   \<and> (analyticsError \<noteq> None \<longrightarrow>
      AnalyticsPage_effect analyticsError = [toast_error ''Failed to load analytics''])
   \<and> (error query \<noteq> None \<longrightarrow>
      Reviews format_date s query = ErrorState ''Failed to load reviews'' (Button ''Try Again'' Refetch))"
  by (simp add: Dashboard_metrics_effect_def Dashboard_reviews_effect_def AnalyticsPage_effect_def
      Reviews_def)

theorem failed_fetch_surfaces_witness:
  "Some ''Network Error'' \<noteq> None
   \<and> Dashboard_metrics_effect (Some ''Network Error'') = [toast_error ''Failed to load metrics'']
   \<and> Dashboard_reviews_effect (Some ''Network Error'') = [toast_error ''Failed to load reviews'']
   \<and> AnalyticsPage_effect (Some ''Network Error'') = [toast_error ''Failed to load analytics'']
   \<and> Reviews id Reviews_init \<lparr>data = None, isLoading = False, error = Some ''Network Error''\<rparr>
       = ErrorState ''Failed to load reviews'' (Button ''Try Again'' Refetch)"
  using failed_fetch_surfaces
    [of "Some ''Network Error''" "Some ''Network Error''" "Some ''Network Error''"
        "\<lparr>data = None, isLoading = False, error = Some ''Network Error''\<rparr>" id Reviews_init]
  by simp

section \<open>The page number never drops below one\<close>

lemma Reviews_step_page: "1 \<le> page s \<Longrightarrow> 1 \<le> page (Reviews_step s e)"
  by (cases e)
    (simp_all add: handleSearch_def handleStatusChange_def handleSortChange_def
      previous_onClick_def next_onClick_def Math_max_def)

lemma Reviews_foldl_page: "1 \<le> page s \<Longrightarrow> 1 \<le> page (foldl Reviews_step s events)"
  by (induction events arbitrary: s) (simp_all add: Reviews_step_page)

text \<open>
  C9. The page number of the reviews page starts at 1 and is at least 1 after every
  sequence of searches, filter changes, sort changes and clicks on Previous and Next.
  Every search, filter or sort change sets it to 1, Previous sets it to
  \<open>max 1 (page - 1)\<close>, Next adds one, and the Previous button is disabled exactly when the
  page number is 1.
\<close>

theorem page_at_least_one:
  "page Reviews_init = 1
   \<and> 1 \<le> page (Reviews_run events)
   \<and> page (handleSearch v s) = 1 \<and> page (handleStatusChange f s) = 1
   \<and> page (handleSortChange k s) = 1
   \<and> page (previous_onClick s) = max 1 (page s - 1)
   \<and> page (next_onClick s) = page s + 1
   \<and> Reviews_pagination s (Some (r # rs)) =
       Some \<lparr>previous_disabled = (page s = 1),
             page_label = ''Page '' @ Number_toString (page s),
             next_disabled = (length (r # rs) < 20)\<rparr>"
proof -
  have init: "page Reviews_init = 1"
    by (simp add: Reviews_init_def)
  then have inv: "1 \<le> page (Reviews_run events)"
    unfolding Reviews_run_def by (intro Reviews_foldl_page) simp
  have handlers: "page (handleSearch v s) = 1 \<and> page (handleStatusChange f s) = 1
      \<and> page (handleSortChange k s) = 1"
    by (simp add: handleSearch_def handleStatusChange_def handleSortChange_def)
  have buttons: "page (previous_onClick s) = max 1 (page s - 1) \<and> page (next_onClick s) = page s + 1"
    by (simp add: previous_onClick_def next_onClick_def Math_max_eq)
  have controls: "Reviews_pagination s (Some (r # rs)) =
       Some \<lparr>previous_disabled = (page s = 1),
             page_label = ''Page '' @ Number_toString (page s),
             next_disabled = (length (r # rs) < 20)\<rparr>"
    by (simp add: Reviews_pagination_def)
  from init inv handlers buttons controls show ?thesis by blast
qed

section \<open>Saving without a draft\<close>

lemma Settings_step_saving:
  "(saving s \<longrightarrow> settings s \<noteq> None) \<Longrightarrow>
   (saving (Settings_step s e) \<longrightarrow> settings (Settings_step s e) \<noteq> None)"
proof (cases e)
  case (Edited x)
  then show ?thesis by (cases x) simp_all
qed (auto simp: initialSettings_effect_def handleSave_def onSuccess_def onError_def
      split: option.splits)

lemma Settings_foldl_saving:
  "(saving s \<longrightarrow> settings s \<noteq> None) \<Longrightarrow>
   (saving (foldl Settings_step s events) \<longrightarrow> settings (foldl Settings_step s events) \<noteq> None)"
proof (induction events arbitrary: s)
  case Nil
  then show ?case by simp
next
  case (Cons e events)
  from Cons.prems have "saving (Settings_step s e) \<longrightarrow> settings (Settings_step s e) \<noteq> None"
    by (rule Settings_step_saving)
  then show ?case using Cons.IH by simp
qed

lemma Settings_run_saving: "settings (Settings_run events) = None \<Longrightarrow> saving (Settings_run events) = False"
  unfolding Settings_run_def
  using Settings_foldl_saving [of Settings_init events] by (auto simp: Settings_init_def)

text \<open>
  C10. \<open>handleSave\<close> on a state whose draft is still null returns the state unchanged and
  issues no request. After every sequence of events of the settings page, if the draft
  is null then the save-in-progress flag is false, and it is still false after
  \<open>handleSave\<close>, which issues no \<open>updateSettings\<close> request.
\<close>

theorem save_without_draft_does_nothing:
  "(settings s = None \<longrightarrow> handleSave s = (s, []))
   \<and> (settings (Settings_run events) = None \<longrightarrow>
        snd (handleSave (Settings_run events)) = [] \<and>
        fst (handleSave (Settings_run events)) = Settings_run events \<and>
        saving (fst (handleSave (Settings_run events))) = False)"
proof -
  have direct: "settings t = None \<longrightarrow> handleSave t = (t, [])" for t
    by (simp add: handleSave_def)
  show ?thesis
    using direct [of s] direct [of "Settings_run events"] Settings_run_saving [of events]
    by auto
qed

theorem save_without_draft_does_nothing_witness:
  "settings Settings_init = None
   \<and> handleSave Settings_init = (Settings_init, [])
   \<and> settings (Settings_run [Save, UpdateFailed, Save]) = None
   \<and> snd (handleSave (Settings_run [Save, UpdateFailed, Save])) = []
   \<and> saving (fst (handleSave (Settings_run [Save, UpdateFailed, Save]))) = False"
  using save_without_draft_does_nothing [of Settings_init "[Save, UpdateFailed, Save]"]
  by (simp add: Settings_run_def Settings_init_def handleSave_def onError_def)

end
